theory Spec2Isabelle
  imports Complex_Main
begin

section \<open>Python values, exceptions and NumPy reductions\<close>

text \<open>
  The analyser of \<^verbatim>\<open>src/index.py\<close> (class \<^verbatim>\<open>HTPDataAnalyzer\<close>) is embedded
  function by function.  Exceptions are values: a function that can raise returns
  \<open>exn + 'a\<close>, with \<open>Inl\<close> the exception.  Floating-point results are idealised as
  reals, with one exception that is structural rather than a matter of rounding: NumPy
  answers \<^verbatim>\<open>nan\<close> (and a warning, not an exception) for the mean, variance and standard
  deviation of an empty sequence, and every comparison with \<^verbatim>\<open>nan\<close> is false.  The type
  \<open>npfloat\<close> keeps that value.
\<close>

datatype exn =
    KeyError string
  | TypeError
  | ValueError
  | ZeroDivisionError
  | AttributeError string

definition ebind :: "exn + 'a \<Rightarrow> ('a \<Rightarrow> exn + 'b) \<Rightarrow> exn + 'b" where
  "ebind m f = (case m of Inl e \<Rightarrow> Inl e | Inr x \<Rightarrow> f x)"

text \<open>A comprehension \<^verbatim>\<open>[f(p) for p in ps]\<close> whose body can raise: the first exception,
  in list order, ends it.\<close>

fun mapE :: "('a \<Rightarrow> exn + 'b) \<Rightarrow> 'a list \<Rightarrow> exn + 'b list" where
  "mapE f [] = Inr []"
| "mapE f (x # xs) = ebind (f x) (\<lambda>y. ebind (mapE f xs) (\<lambda>ys. Inr (y # ys)))"

text \<open>The subscript \<^verbatim>\<open>d[key]\<close> on a dictionary entry that may be absent.\<close>

fun getitem :: "string \<Rightarrow> 'a option \<Rightarrow> exn + 'a" where
  "getitem k None = Inl (KeyError k)"
| "getitem k (Some v) = Inr v"

text \<open>The division \<^verbatim>\<open>a / b\<close> of Python numbers.\<close>

definition truediv :: "real \<Rightarrow> real \<Rightarrow> exn + real" where
  "truediv a b = (if b = 0 then Inl ZeroDivisionError else Inr (a / b))"

datatype npfloat = NaN | Fin real

fun nf_gt :: "npfloat \<Rightarrow> real \<Rightarrow> bool" where
  "nf_gt NaN c = False"
| "nf_gt (Fin x) c = (x > c)"

fun nf_lt :: "npfloat \<Rightarrow> real \<Rightarrow> bool" where
  "nf_lt NaN c = False"
| "nf_lt (Fin x) c = (x < c)"

fun nf_le :: "npfloat \<Rightarrow> real \<Rightarrow> bool" where
  "nf_le NaN c = False"
| "nf_le (Fin x) c = (x \<le> c)"

fun nf_add :: "npfloat \<Rightarrow> npfloat \<Rightarrow> npfloat" where
  "nf_add (Fin a) (Fin b) = Fin (a + b)"
| "nf_add _ _ = NaN"

fun nf_sub :: "npfloat \<Rightarrow> npfloat \<Rightarrow> npfloat" where
  "nf_sub (Fin a) (Fin b) = Fin (a - b)"
| "nf_sub _ _ = NaN"

fun nf_mul :: "npfloat \<Rightarrow> npfloat \<Rightarrow> npfloat" where
  "nf_mul (Fin a) (Fin b) = Fin (a * b)"
| "nf_mul _ _ = NaN"

text \<open>NumPy's division answers \<^verbatim>\<open>inf\<close> or \<^verbatim>\<open>nan\<close> for a zero divisor; both are
  \<open>NaN\<close> here.  Every such division of the source stands behind a test that its divisor
  is positive, so that case is never evaluated.\<close>

fun nf_div :: "npfloat \<Rightarrow> npfloat \<Rightarrow> npfloat" where
  "nf_div (Fin a) (Fin b) = (if b = 0 then NaN else Fin (a / b))"
| "nf_div _ _ = NaN"

text \<open>Python's \<^verbatim>\<open>min(a, 1.0)\<close>: the second argument replaces the first only when it
  compares smaller, so \<^verbatim>\<open>min(nan, 1.0)\<close> is \<^verbatim>\<open>nan\<close>.\<close>

fun py_min :: "npfloat \<Rightarrow> real \<Rightarrow> npfloat" where
  "py_min NaN b = NaN"
| "py_min (Fin a) b = Fin (if b < a then b else a)"

definition np_mean :: "real list \<Rightarrow> npfloat" where
  "np_mean xs = (if xs = [] then NaN else Fin (sum_list xs / real (length xs)))"

definition np_var :: "real list \<Rightarrow> npfloat" where
  "np_var xs =
     (if xs = [] then NaN
      else let m = sum_list xs / real (length xs)
           in Fin (sum_list (map (\<lambda>x. (x - m)\<^sup>2) xs) / real (length xs)))"

definition np_std :: "real list \<Rightarrow> npfloat" where
  "np_std xs = (case np_var xs of NaN \<Rightarrow> NaN | Fin v \<Rightarrow> Fin (sqrt v))"

text \<open>The expression \<^verbatim>\<open>np.std(xs) / np.mean(xs) if np.mean(xs) > 0 else 0\<close>, which the
  source writes out for each metric.\<close>

definition coefficient_of_variation :: "real list \<Rightarrow> npfloat" where
  "coefficient_of_variation xs =
     (if nf_gt (np_mean xs) 0 then nf_div (np_std xs) (np_mean xs) else Fin 0)"

section \<open>The telemetry payload\<close>

text \<open>
  A phase record is a dictionary; a key may be absent (\<open>None\<close>).  The payload is either
  not a dictionary at all, or a dictionary whose \<^verbatim>\<open>phases\<close> key may be absent.  The
  fields carry the types of the data model: integers for \<^verbatim>\<open>timeSpent\<close> and
  \<^verbatim>\<open>strokeCount\<close> (of either sign: nothing checks their range), a list of colour
  identifiers, a number for \<^verbatim>\<open>coverage\<close>.  Values of other types (a string where a
  number is expected, say) are not in the model.
\<close>

record phase_rec =
  phase :: "int option"
  timeSpent :: "int option"
  strokeCount :: "int option"
  colorsUsed :: "string list option"
  coverage :: "real option"

datatype drawing_data = Non_mapping | Mapping "phase_rec list option"

subsection \<open>validate_input\<close>

definition has_required_fields :: "phase_rec \<Rightarrow> bool" where
  "has_required_fields p =
     (phase p \<noteq> None \<and> timeSpent p \<noteq> None \<and> strokeCount p \<noteq> None \<and> colorsUsed p \<noteq> None)"

fun validate_phases :: "phase_rec list \<Rightarrow> bool" where
  "validate_phases [] = True"
| "validate_phases (p # ps) = (if \<not> has_required_fields p then False else validate_phases ps)"

fun validate_input :: "drawing_data \<Rightarrow> bool" where
  "validate_input Non_mapping = False"
| "validate_input (Mapping None) = False"
| "validate_input (Mapping (Some ps)) = validate_phases ps"

section \<open>Feature extractors\<close>

subsection \<open>Time\<close>

record priority =
  domain_label :: string
  time_minutes :: real
  priority_rank :: nat

record time_features =
  total_time :: real
  average_time :: npfloat
  time_variance :: npfloat
  time_distribution :: "real list"
  phase_priorities :: "priority list"
  time_efficiency_score :: real

definition phase_names :: "string list" where
  "phase_names = [''Home & Security'', ''Personal Growth'', ''Self-Image'']"

text \<open>\<^verbatim>\<open>sorted(..., key=lambda x: x[1], reverse=True)\<close> is stable: equal times keep
  their order, as \<open>sort_key\<close> on the negated time does.\<close>

definition calculate_phase_priorities :: "real list \<Rightarrow> priority list" where
  "calculate_phase_priorities tms =
     (let priorities = sort_key (\<lambda>x. - snd x) (zip phase_names tms)
      in map (\<lambda>(i, (name, t)). \<lparr>domain_label = name, time_minutes = t, priority_rank = i + 1\<rparr>)
           (zip [0..<length priorities] priorities))"

definition stroke_counts :: "phase_rec list \<Rightarrow> exn + int list" where
  "stroke_counts phases = mapE (\<lambda>p. getitem ''strokeCount'' (strokeCount p)) phases"

definition calculate_time_efficiency :: "real list \<Rightarrow> phase_rec list \<Rightarrow> exn + real" where
  "calculate_time_efficiency tms phases =
     ebind (stroke_counts phases) (\<lambda>sc.
       if sum_list sc > 0 then truediv (sum_list tms) (real_of_int (sum_list sc))
       else Inr 0)"

definition extract_time_features :: "phase_rec list \<Rightarrow> exn + time_features" where
  "extract_time_features phases =
     ebind (mapE (\<lambda>p. ebind (getitem ''timeSpent'' (timeSpent p))
                        (\<lambda>t. Inr (real_of_int t / 60000))) phases) (\<lambda>tms.
     ebind (calculate_time_efficiency tms phases) (\<lambda>eff.
       Inr \<lparr>total_time = sum_list tms,
            average_time = np_mean tms,
            time_variance = np_var tms,
            time_distribution = tms,
            phase_priorities = calculate_phase_priorities tms,
            time_efficiency_score = eff\<rparr>))"

subsection \<open>Complexity\<close>

record complexity_features =
  total_strokes :: int
  average_strokes :: npfloat
  stroke_variance :: npfloat
  detail_progression :: npfloat
  complexity_score :: npfloat
  artistic_intensity :: real

definition calculate_detail_progression :: "int list \<Rightarrow> npfloat" where
  "calculate_detail_progression strokes =
     (if length strokes < 2 then Fin 0
      else np_mean (map (\<lambda>i. real_of_int (strokes ! (i + 1) - strokes ! i))
                     [0..<length strokes - 1]))"

definition calculate_complexity_score :: "int list \<Rightarrow> real list \<Rightarrow> npfloat" where
  "calculate_complexity_score strokes cov =
     (let stroke_score = nf_div (np_mean (map real_of_int strokes)) (Fin 100);
          coverage_score = nf_div (np_mean cov) (Fin 100)
      in py_min (nf_div (nf_add stroke_score coverage_score) (Fin 2)) 1)"

definition calculate_artistic_intensity :: "phase_rec list \<Rightarrow> exn + real" where
  "calculate_artistic_intensity phases =
     ebind (mapE (\<lambda>p. ebind (getitem ''strokeCount'' (strokeCount p)) (\<lambda>s.
                        ebind (getitem ''colorsUsed'' (colorsUsed p)) (\<lambda>cs.
                          Inr (s + int (length cs))))) phases) (\<lambda>activity.
     ebind (mapE (\<lambda>p. getitem ''timeSpent'' (timeSpent p)) phases) (\<lambda>ts.
       let total_activity = real_of_int (sum_list activity);
           total_time_min = real_of_int (sum_list ts) / 60000
       in if total_time_min > 0 then truediv total_activity total_time_min else Inr 0))"

definition extract_complexity_features :: "phase_rec list \<Rightarrow> exn + complexity_features" where
  "extract_complexity_features phases =
     ebind (stroke_counts phases) (\<lambda>strokes.
       let cov = map (\<lambda>p. case coverage p of None \<Rightarrow> 0 | Some c \<Rightarrow> c) phases
       in ebind (calculate_artistic_intensity phases) (\<lambda>intensity.
            Inr \<lparr>total_strokes = sum_list strokes,
                 average_strokes = np_mean (map real_of_int strokes),
                 stroke_variance = np_var (map real_of_int strokes),
                 detail_progression = calculate_detail_progression strokes,
                 complexity_score = calculate_complexity_score strokes cov,
                 artistic_intensity = intensity\<rparr>))"

subsection \<open>Colour\<close>

text \<open>The emotional-expression level is a Python value: \<^verbatim>\<open>assess_emotional_expression\<close>
  returns a string, and \<^verbatim>\<open>calculate_composite_scores\<close> multiplies whatever the
  dictionary holds by the float \<^verbatim>\<open>0.5\<close>.  Python raises \<^verbatim>\<open>TypeError\<close> for a string
  times a float.\<close>

datatype pyval = PyStr string | PyFloat real

fun py_mul_float :: "pyval \<Rightarrow> real \<Rightarrow> exn + real" where
  "py_mul_float (PyStr s) r = Inl TypeError"
| "py_mul_float (PyFloat x) r = Inr (x * r)"

record color_features =
  total_unique_colors :: nat
  color_per_phase :: "nat list"
  color_diversity_score :: real
  emotional_expression_level :: pyval
  color_consistency :: npfloat

text \<open>\<^verbatim>\<open>Counter(all_colors).values()\<close>: for each distinct colour, in the order of first
  occurrence, the number of its occurrences.\<close>

definition counter_values :: "'a list \<Rightarrow> nat list" where
  "counter_values xs = map (count_list xs) (rev (remdups (rev xs)))"

definition calculate_color_diversity :: "string list \<Rightarrow> exn + real" where
  "calculate_color_diversity all_colors =
     (let color_counts = counter_values all_colors;
          total = length all_colors
      in if total \<le> 1 then Inr 0
         else ebind (mapE (\<lambda>count. ebind (truediv (real count) (real total)) (\<lambda>p.
                             ebind (truediv (real count) (real total)) (\<lambda>q.
                               Inr (p * log 2 q)))) color_counts) (\<lambda>terms.
                let entropy = - sum_list terms;
                    max_entropy = log 2 (real (length color_counts))
                in if max_entropy > 0 then Inr (entropy / max_entropy) else Inr 0))"

definition assess_emotional_expression :: "nat list \<Rightarrow> pyval" where
  "assess_emotional_expression color_counts =
     (let avg_colors = np_mean (map real color_counts)
      in if nf_gt avg_colors 3 then PyStr ''High''
         else if nf_gt avg_colors 1.5 then PyStr ''Moderate''
         else PyStr ''Low'')"

definition color_counts_of :: "phase_rec list \<Rightarrow> exn + nat list" where
  "color_counts_of phases =
     mapE (\<lambda>p. ebind (getitem ''colorsUsed'' (colorsUsed p)) (\<lambda>cs. Inr (length cs))) phases"

definition calculate_color_consistency :: "phase_rec list \<Rightarrow> exn + npfloat" where
  "calculate_color_consistency phases =
     ebind (color_counts_of phases) (\<lambda>color_counts.
       let xs = map real color_counts
       in if nf_gt (np_mean xs) 0 then Inr (nf_sub (Fin 1) (nf_div (np_std xs) (np_mean xs)))
          else Inr (Fin 1))"

definition extract_color_features :: "phase_rec list \<Rightarrow> exn + color_features" where
  "extract_color_features phases =
     ebind (mapE (\<lambda>p. getitem ''colorsUsed'' (colorsUsed p)) phases) (\<lambda>css.
       let all_colors = concat css;
           color_counts = map length css;
           unique_colors = card (set all_colors)
       in ebind (calculate_color_diversity all_colors) (\<lambda>diversity.
          ebind (calculate_color_consistency phases) (\<lambda>consistency.
            Inr \<lparr>total_unique_colors = unique_colors,
                 color_per_phase = color_counts,
                 color_diversity_score = diversity,
                 emotional_expression_level = assess_emotional_expression color_counts,
                 color_consistency = consistency\<rparr>)))"

subsection \<open>Consistency\<close>

record consistency_features =
  time_consistency :: npfloat
  stroke_consistency :: npfloat
  color_count_consistency :: npfloat
  overall_consistency :: npfloat

text \<open>
  Modelled from the spec: the end of \<^verbatim>\<open>calculate_overall_consistency\<close>.  The source
  breaks off in line 379, inside the third assignment
  (\<^verbatim>\<open>color_cv = np.std(colors) / np.mean(colors) if\<close>); the two assignments before it are
  complete.  The third is closed the way the first two are written, and the result follows
  the spec (4.5): the average of the three values \<open>1 - CV\<close>, the zero-mean rule applied
  to each metric before averaging.
\<close>

definition calculate_overall_consistency :: "real list \<Rightarrow> real list \<Rightarrow> real list \<Rightarrow> npfloat" where
  "calculate_overall_consistency tms strokes colors =
     (let time_cv = coefficient_of_variation tms;
          stroke_cv = coefficient_of_variation strokes;
          color_cv = coefficient_of_variation colors
      in nf_div (nf_add (nf_add (nf_sub (Fin 1) time_cv) (nf_sub (Fin 1) stroke_cv))
                   (nf_sub (Fin 1) color_cv)) (Fin 3))"

definition extract_consistency_features :: "phase_rec list \<Rightarrow> exn + consistency_features" where
  "extract_consistency_features phases =
     ebind (mapE (\<lambda>p. getitem ''timeSpent'' (timeSpent p)) phases) (\<lambda>ts.
     ebind (stroke_counts phases) (\<lambda>ss.
     ebind (color_counts_of phases) (\<lambda>cs.
       let tms = map real_of_int ts; strokes = map real_of_int ss; colors = map real cs
       in Inr \<lparr>time_consistency = nf_sub (Fin 1) (coefficient_of_variation tms),
               stroke_consistency = nf_sub (Fin 1) (coefficient_of_variation strokes),
               color_count_consistency = nf_sub (Fin 1) (coefficient_of_variation colors),
               overall_consistency = calculate_overall_consistency tms strokes colors\<rparr>)))"

section \<open>Composite scores and classification\<close>

record composite_scores =
  psychological_investment :: npfloat
  creative_expression :: npfloat
  behavioral_consistency :: npfloat
  attention_to_detail :: npfloat

text \<open>The dictionary display is evaluated entry by entry, in the order written; the
  second entry multiplies the emotional-expression level by \<^verbatim>\<open>0.5\<close>.\<close>

definition calculate_composite_scores ::
  "time_features \<Rightarrow> complexity_features \<Rightarrow> color_features \<Rightarrow> consistency_features
     \<Rightarrow> exn + composite_scores" where
  "calculate_composite_scores time_f complexity_f color_f consistency_f =
     (let investment = py_min (nf_add (Fin (total_time time_f / 15 * 0.4))
                                 (nf_mul (complexity_score complexity_f) (Fin 0.6))) 1
      in ebind (py_mul_float (emotional_expression_level color_f) 0.5) (\<lambda>level_half.
           Inr \<lparr>psychological_investment = investment,
                creative_expression =
                  py_min (Fin (color_diversity_score color_f * 0.5 + level_half)) 1,
                behavioral_consistency = overall_consistency consistency_f,
                attention_to_detail =
                  py_min (Fin (real_of_int (total_strokes complexity_f) / 300 * 0.6
                               + artistic_intensity complexity_f * 0.4)) 1\<rparr>))"

record features =
  time_features :: time_features
  complexity_features :: complexity_features
  color_features :: color_features
  consistency_features :: consistency_features
  composite_scores :: composite_scores

text \<open>\<^verbatim>\<open>drawing_data['phases']\<close>.\<close>

fun get_phases :: "drawing_data \<Rightarrow> exn + phase_rec list" where
  "get_phases Non_mapping = Inl TypeError"
| "get_phases (Mapping None) = Inl (KeyError ''phases'')"
| "get_phases (Mapping (Some ps)) = Inr ps"

definition extract_psychological_features :: "drawing_data \<Rightarrow> exn + features" where
  "extract_psychological_features drawing_data =
     ebind (get_phases drawing_data) (\<lambda>phases.
     ebind (extract_time_features phases) (\<lambda>tf.
     ebind (extract_complexity_features phases) (\<lambda>cf.
     ebind (extract_color_features phases) (\<lambda>colf.
     ebind (extract_consistency_features phases) (\<lambda>consf.
     ebind (calculate_composite_scores tf cf colf consf) (\<lambda>comp.
       Inr \<lparr>time_features = tf, complexity_features = cf, color_features = colf,
            consistency_features = consf, composite_scores = comp\<rparr>))))))"

definition determine_personality_cluster :: "composite_scores \<Rightarrow> nat" where
  "determine_personality_cluster scores =
     (if nf_gt (attention_to_detail scores) 0.7 \<and> nf_gt (behavioral_consistency scores) 0.6
        then 0
      else if nf_gt (creative_expression scores) 0.6 \<and> nf_gt (psychological_investment scores) 0.5
        then 1
      else if nf_lt (psychological_investment scores) 0.4 \<and> nf_gt (behavioral_consistency scores) 0.5
        then 2
      else 3)"

text \<open>The table \<^verbatim>\<open>personality_clusters\<close>: cluster number to type and description.\<close>

definition personality_clusters :: "(nat \<times> string \<times> string) list" where
  "personality_clusters =
     [(0, ''Analytical'', ''Detail-oriented, systematic, consistent''),
      (1, ''Creative'', ''Expressive, colorful, varied approach''),
      (2, ''Efficient'', ''Quick, decisive, minimalist''),
      (3, ''Thoughtful'', ''Reflective, thorough, balanced'')]"

text \<open>A call of a method that the class does not define: \<^verbatim>\<open>self.name\<close> raises
  \<^verbatim>\<open>AttributeError\<close> before any argument is used.  The helpers the source calls and
  never defines are \<^verbatim>\<open>calculate_cluster_confidence\<close>,
  \<^verbatim>\<open>assess_emotional_expression_style\<close>, \<^verbatim>\<open>assess_behavioral_patterns\<close>,
  \<^verbatim>\<open>generate_overall_assessment\<close>, \<^verbatim>\<open>analyze_behavioral_patterns\<close>,
  \<^verbatim>\<open>generate_personalized_recommendations\<close> and \<^verbatim>\<open>calculate_percentile_rankings\<close>.
  Their results have no type in the source; \<open>pyobject\<close> stands for it.\<close>

typedecl pyobject

definition undefined_method :: "string \<Rightarrow> exn + 'a" where
  "undefined_method name = Inl (AttributeError name)"

record personality_cluster =
  cluster_id :: nat
  personality_type :: string
  description :: string
  confidence_score :: "real option"

text \<open>The body of \<^verbatim>\<open>perform_personality_clustering\<close> inside its \<^verbatim>\<open>try\<close>, then the
  function with its \<^verbatim>\<open>except Exception\<close> branch.\<close>

definition clustering_body :: "features \<Rightarrow> exn + personality_cluster" where
  "clustering_body fs =
     (let composite = composite_scores fs;
          cluster = determine_personality_cluster composite
      in ebind (case map_of personality_clusters cluster of
                  None \<Rightarrow> Inl (KeyError ''cluster'')
                | Some entry \<Rightarrow> Inr entry) (\<lambda>entry.
         ebind (undefined_method ''calculate_cluster_confidence'') (\<lambda>confidence.
           Inr \<lparr>cluster_id = cluster,
                personality_type = fst entry,
                description = snd entry,
                confidence_score = Some confidence\<rparr>)))"

definition perform_personality_clustering :: "features \<Rightarrow> personality_cluster" where
  "perform_personality_clustering fs =
     (case clustering_body fs of
        Inr r \<Rightarrow> r
      | Inl e \<Rightarrow> \<lparr>cluster_id = 0, personality_type = ''Unknown'',
                  description = ''Analysis incomplete'', confidence_score = None\<rparr>)"

section \<open>Profile, summary and the entry point\<close>

record cognitive_style_rec =
  style :: string
  style_description :: string

definition assess_cognitive_style :: "composite_scores \<Rightarrow> cognitive_style_rec" where
  "assess_cognitive_style composite =
     (let detail_score = attention_to_detail composite;
          consistency_score = behavioral_consistency composite
      in if nf_gt detail_score 0.7 then
           (if nf_gt consistency_score 0.6
            then \<lparr>style = ''Systematic Processor'',
                  style_description = ''Methodical, thorough, detail-oriented''\<rparr>
            else \<lparr>style = ''Complex Processor'',
                  style_description = ''Detailed but flexible approach''\<rparr>)
         else if nf_lt detail_score 0.3
           then \<lparr>style = ''Global Processor'',
                 style_description = ''Big-picture focus, efficient processing''\<rparr>
         else \<lparr>style = ''Balanced Processor'',
               style_description = ''Adaptive between detail and overview''\<rparr>)"

record psychological_profile =
  cognitive_style :: cognitive_style_rec
  emotional_expression :: pyobject
  behavioral_patterns :: pyobject
  psychological_priorities :: "priority list"
  overall_assessment :: pyobject

definition generate_psychological_profile :: "features \<Rightarrow> exn + psychological_profile" where
  "generate_psychological_profile fs =
     (let composite = composite_scores fs;
          cognitive = assess_cognitive_style composite
      in ebind (undefined_method ''assess_emotional_expression_style'') (\<lambda>expression.
         ebind (undefined_method ''assess_behavioral_patterns'') (\<lambda>patterns.
         ebind (undefined_method ''generate_overall_assessment'') (\<lambda>assessment.
           Inr \<lparr>cognitive_style = cognitive,
                emotional_expression = expression,
                behavioral_patterns = patterns,
                psychological_priorities = phase_priorities (time_features fs),
                overall_assessment = assessment\<rparr>))))"

text \<open>
  \<^verbatim>\<open>generate_statistical_summary\<close> builds its dictionary in three entries.  The first,
  \<^verbatim>\<open>descriptive_statistics\<close>, takes \<^verbatim>\<open>min(times)\<close>, which raises \<^verbatim>\<open>ValueError\<close> on
  an empty list; the second, \<^verbatim>\<open>correlations\<close>, raises nothing (NumPy warns); the third
  calls \<^verbatim>\<open>calculate_percentile_rankings\<close>, which the class does not define.  So no
  summary is ever returned, and the values of the first two entries are dropped with the
  exception; they are not computed here.
\<close>

definition generate_statistical_summary :: "drawing_data \<Rightarrow> exn + pyobject" where
  "generate_statistical_summary drawing_data =
     ebind (get_phases drawing_data) (\<lambda>phases.
     ebind (mapE (\<lambda>p. ebind (getitem ''timeSpent'' (timeSpent p))
                        (\<lambda>t. Inr (real_of_int t / 60000))) phases) (\<lambda>tms.
     ebind (stroke_counts phases) (\<lambda>strokes.
     ebind (color_counts_of phases) (\<lambda>colors.
       if tms = [] then Inl ValueError
       else undefined_method ''calculate_percentile_rankings''))))"

record analysis =
  timestamp :: string
  feature_analysis :: features
  personality_cluster :: personality_cluster
  psychological_profile :: psychological_profile
  behavioral_insights :: pyobject
  recommendations :: pyobject
  statistical_summary :: pyobject

datatype error_message = Invalid_input_data_format | Analysis_failed exn

datatype analysis_result = Error_result error_message | Analysis analysis

text \<open>
  \<^verbatim>\<open>analyze_drawing_patterns\<close>: the body of its \<^verbatim>\<open>try\<close>, then the function with its
  \<^verbatim>\<open>except Exception\<close> branch.  The clock is an argument: \<open>now\<close> is what
  \<^verbatim>\<open>datetime.now().isoformat()\<close> answers during the call.  The dictionary display
  of lines 55 to 63, with its entries evaluated, is \<open>make_analysis\<close>.  The two calls of
  the logger are outside the model.
\<close>

definition make_analysis ::
  "string \<Rightarrow> features \<Rightarrow> personality_cluster \<Rightarrow> psychological_profile
     \<Rightarrow> pyobject \<Rightarrow> pyobject \<Rightarrow> pyobject \<Rightarrow> analysis" where
  "make_analysis now fs cluster profile insights recs summary =
     \<lparr>timestamp = now,
      feature_analysis = fs,
      personality_cluster = cluster,
      psychological_profile = profile,
      behavioral_insights = insights,
      recommendations = recs,
      statistical_summary = summary\<rparr>"

definition analysis_body :: "string \<Rightarrow> drawing_data \<Rightarrow> exn + analysis_result" where
  "analysis_body now drawing_data =
     (if \<not> validate_input drawing_data then Inr (Error_result Invalid_input_data_format)
      else
        ebind (extract_psychological_features drawing_data) (\<lambda>fs.
          let cluster = perform_personality_clustering fs
          in ebind (generate_psychological_profile fs) (\<lambda>profile.
             ebind (undefined_method ''analyze_behavioral_patterns'') (\<lambda>insights.
             ebind (undefined_method ''generate_personalized_recommendations'') (\<lambda>recs.
             ebind (generate_statistical_summary drawing_data) (\<lambda>summary.
               Inr (Analysis (make_analysis now fs cluster profile insights recs summary))))))))"

definition analyze_drawing_patterns :: "string \<Rightarrow> drawing_data \<Rightarrow> analysis_result" where
  "analyze_drawing_patterns now drawing_data =
     (case analysis_body now drawing_data of
        Inr r \<Rightarrow> r
      | Inl e \<Rightarrow> Error_result (Analysis_failed e))"

section \<open>Inputs used in the examples\<close>

text \<open>The spec's example: three phases of five minutes and fifty strokes each, all drawn
  in red, no coverage given.\<close>

definition example_phase :: "int \<Rightarrow> phase_rec" where
  "example_phase n =
     \<lparr>phase = Some n, timeSpent = Some 300000, strokeCount = Some 50,
      colorsUsed = Some [''red''], coverage = None\<rparr>"

definition example_data :: drawing_data where
  "example_data = Mapping (Some [example_phase 1, example_phase 2, example_phase 3])"

text \<open>A phase that lacks \<^verbatim>\<open>colorsUsed\<close>.\<close>

definition phase_without_colors :: phase_rec where
  "phase_without_colors =
     \<lparr>phase = Some 1, timeSpent = Some 300000, strokeCount = Some 50,
      colorsUsed = None, coverage = None\<rparr>"


text \<open>Five phases whose times, stroke counts and colour counts are all 0, 0, 0, 0, 5:
  each metric has mean 1 and standard deviation 2.\<close>

definition skewed_phase :: "int \<Rightarrow> string list \<Rightarrow> phase_rec" where
  "skewed_phase n cs =
     \<lparr>phase = Some 1, timeSpent = Some n, strokeCount = Some n, colorsUsed = Some cs,
      coverage = None\<rparr>"

definition skewed_phases :: "phase_rec list" where
  "skewed_phases =
     [skewed_phase 0 [], skewed_phase 0 [], skewed_phase 0 [], skewed_phase 0 [],
      skewed_phase 5 [''red'', ''red'', ''red'', ''red'', ''red'']]"

section \<open>The spec's quantities\<close>

text \<open>Totals over a phase sequence whose records carry their fields, and the entropy of
  the spec's colour-diversity formula, written after the spec's words.\<close>

definition total_stroke_count :: "phase_rec list \<Rightarrow> int" where
  "total_stroke_count ps = sum_list (map (\<lambda>p. the (strokeCount p)) ps)"

definition total_minutes :: "phase_rec list \<Rightarrow> real" where
  "total_minutes ps = real_of_int (sum_list (map (\<lambda>p. the (timeSpent p)) ps)) / 60000"

definition total_activity :: "phase_rec list \<Rightarrow> int" where
  "total_activity ps = sum_list (map (\<lambda>p. the (strokeCount p) + int (length (the (colorsUsed p)))) ps)"

definition color_frequency :: "'a list \<Rightarrow> 'a \<Rightarrow> real" where
  "color_frequency xs c = real (count_list xs c) / real (length xs)"

definition shannon_entropy :: "'a list \<Rightarrow> real" where
  "shannon_entropy xs = - (\<Sum>c \<in> set xs. color_frequency xs c * log 2 (color_frequency xs c))"

definition normalized_entropy :: "'a list \<Rightarrow> real" where
  "normalized_entropy xs = shannon_entropy xs / log 2 (real (card (set xs)))"

definition all_colors_of :: "phase_rec list \<Rightarrow> string list" where
  "all_colors_of ps = concat (map (\<lambda>p. the (colorsUsed p)) ps)"

section \<open>Basic facts\<close>

lemma ebind_Inl: "ebind (Inl e) f = Inl e"
  by (simp add: ebind_def)

lemma ebind_Inr: "ebind (Inr x) f = f x"
  by (simp add: ebind_def)

lemma mapE_Inr:
  "(\<And>x. x \<in> set xs \<Longrightarrow> f x = Inr (g x)) \<Longrightarrow> mapE f xs = Inr (map g xs)"
  by (induction xs) (simp_all add: ebind_Inr)

lemma validate_phases_iff: "validate_phases ps = (\<forall>p \<in> set ps. has_required_fields p)"
  by (induction ps) simp_all

lemma undefined_method_fails: "ebind (undefined_method name) f = Inl (AttributeError name)"
  by (simp add: undefined_method_def ebind_Inl)

lemma map_of_personality_clusters:
  "determine_personality_cluster c = 0 \<or> determine_personality_cluster c = 1 \<or>
   determine_personality_cluster c = 2 \<or> determine_personality_cluster c = 3"
  by (simp add: determine_personality_cluster_def)

lemma clustering_body_fails:
  "clustering_body fs = Inl (AttributeError ''calculate_cluster_confidence'')"
  using map_of_personality_clusters [of "composite_scores fs"]
  by (auto simp add: clustering_body_def Let_def personality_clusters_def ebind_Inr
      undefined_method_fails)

lemma time_spent_valid:
  assumes "validate_phases ps"
  shows "mapE (\<lambda>p. getitem ''timeSpent'' (timeSpent p)) ps = Inr (map (\<lambda>p. the (timeSpent p)) ps)"
  using assms by (intro mapE_Inr) (auto simp add: validate_phases_iff has_required_fields_def)

lemma time_minutes_valid:
  assumes "validate_phases ps"
  shows "mapE (\<lambda>p. ebind (getitem ''timeSpent'' (timeSpent p)) (\<lambda>t. Inr (real_of_int t / 60000))) ps
         = Inr (map (\<lambda>p. real_of_int (the (timeSpent p)) / 60000) ps)"
  using assms by (intro mapE_Inr) (auto simp add: validate_phases_iff has_required_fields_def ebind_Inr)

lemma stroke_counts_valid:
  assumes "validate_phases ps"
  shows "stroke_counts ps = Inr (map (\<lambda>p. the (strokeCount p)) ps)"
  unfolding stroke_counts_def
  using assms by (intro mapE_Inr) (auto simp add: validate_phases_iff has_required_fields_def)

lemma colors_used_valid:
  assumes "validate_phases ps"
  shows "mapE (\<lambda>p. getitem ''colorsUsed'' (colorsUsed p)) ps = Inr (map (\<lambda>p. the (colorsUsed p)) ps)"
  using assms by (intro mapE_Inr) (auto simp add: validate_phases_iff has_required_fields_def)

lemma color_counts_valid:
  assumes "validate_phases ps"
  shows "color_counts_of ps = Inr (map (\<lambda>p. length (the (colorsUsed p))) ps)"
  unfolding color_counts_of_def
  using assms by (intro mapE_Inr) (auto simp add: validate_phases_iff has_required_fields_def ebind_Inr)

lemma activity_valid:
  assumes "validate_phases ps"
  shows "mapE (\<lambda>p. ebind (getitem ''strokeCount'' (strokeCount p)) (\<lambda>s.
                        ebind (getitem ''colorsUsed'' (colorsUsed p)) (\<lambda>cs.
                          Inr (s + int (length cs))))) ps
         = Inr (map (\<lambda>p. the (strokeCount p) + int (length (the (colorsUsed p)))) ps)"
  using assms by (intro mapE_Inr) (auto simp add: validate_phases_iff has_required_fields_def ebind_Inr)

lemma time_efficiency_valid:
  assumes "validate_phases ps"
  shows "calculate_time_efficiency tms ps =
         Inr (if sum_list (map (\<lambda>p. the (strokeCount p)) ps) > 0
              then sum_list tms / real_of_int (sum_list (map (\<lambda>p. the (strokeCount p)) ps))
              else 0)"
  by (simp add: calculate_time_efficiency_def stroke_counts_valid [OF assms] ebind_Inr truediv_def)

lemma artistic_intensity_valid:
  assumes "validate_phases ps"
  shows "calculate_artistic_intensity ps =
         Inr (if real_of_int (sum_list (map (\<lambda>p. the (timeSpent p)) ps)) / 60000 > 0
              then real_of_int (sum_list (map (\<lambda>p. the (strokeCount p) + int (length (the (colorsUsed p)))) ps))
                   / (real_of_int (sum_list (map (\<lambda>p. the (timeSpent p)) ps)) / 60000)
              else 0)"
  by (simp add: calculate_artistic_intensity_def activity_valid [OF assms]
      time_spent_valid [OF assms] ebind_Inr truediv_def Let_def)

lemma color_diversity_total:
  "calculate_color_diversity xs =
     Inr (if length xs \<le> 1 then 0
          else if log 2 (real (length (counter_values xs))) > 0
          then (- sum_list (map (\<lambda>c. (real c / real (length xs)) * log 2 (real c / real (length xs)))
                              (counter_values xs)))
               / log 2 (real (length (counter_values xs)))
          else 0)"
proof (cases "length xs \<le> 1")
  case True
  then show ?thesis by (simp add: calculate_color_diversity_def Let_def)
next
  case False
  then have pos: "real (length xs) \<noteq> 0" by (cases xs) simp_all
  have m: "mapE (\<lambda>count. ebind (truediv (real count) (real (length xs))) (\<lambda>p.
                             ebind (truediv (real count) (real (length xs))) (\<lambda>q.
                               Inr (p * log 2 q)))) (counter_values xs)
           = Inr (map (\<lambda>c. (real c / real (length xs)) * log 2 (real c / real (length xs)))
                              (counter_values xs))"
    using pos by (intro mapE_Inr) (simp add: truediv_def ebind_Inr)
  show ?thesis using False
    by (simp add: calculate_color_diversity_def Let_def m ebind_Inr)
qed

lemma color_consistency_valid:
  assumes "validate_phases ps"
  shows "\<exists>c. calculate_color_consistency ps = Inr c"
  by (simp add: calculate_color_consistency_def color_counts_valid [OF assms] ebind_Inr Let_def)

lemma assess_emotional_expression_str: "\<exists>s. assess_emotional_expression cc = PyStr s"
  by (simp add: assess_emotional_expression_def Let_def)

lemma composite_of_str_level:
  "emotional_expression_level color_f = PyStr s \<Longrightarrow>
   calculate_composite_scores time_f complexity_f color_f consistency_f = Inl TypeError"
  by (simp add: calculate_composite_scores_def Let_def ebind_Inl)

lemma extract_time_features_valid:
  assumes "validate_phases ps"
  shows "\<exists>tf. extract_time_features ps = Inr tf"
  by (simp add: extract_time_features_def time_minutes_valid [OF assms]
      time_efficiency_valid [OF assms] ebind_Inr)

lemma extract_complexity_features_valid:
  assumes "validate_phases ps"
  shows "\<exists>cf. extract_complexity_features ps = Inr cf"
  by (simp add: extract_complexity_features_def stroke_counts_valid [OF assms]
      artistic_intensity_valid [OF assms] ebind_Inr Let_def)

lemma extract_color_features_valid:
  assumes "validate_phases ps"
  shows "\<exists>colf s. extract_color_features ps = Inr colf \<and> emotional_expression_level colf = PyStr s"
proof -
  obtain c where c: "calculate_color_consistency ps = Inr c"
    using color_consistency_valid [OF assms] by blast
  obtain s where s: "assess_emotional_expression (map (length \<circ> (\<lambda>p. the (colorsUsed p))) ps) = PyStr s"
    using assess_emotional_expression_str by blast
  show ?thesis
    by (simp add: extract_color_features_def colors_used_valid [OF assms] ebind_Inr Let_def
        color_diversity_total c s)
qed

lemma extract_consistency_features_valid:
  assumes "validate_phases ps"
  shows "\<exists>consf. extract_consistency_features ps = Inr consf"
  by (simp add: extract_consistency_features_def time_spent_valid [OF assms]
      stroke_counts_valid [OF assms] color_counts_valid [OF assms] ebind_Inr Let_def)

lemma extract_psychological_features_fails:
  assumes "validate_phases ps"
  shows "extract_psychological_features (Mapping (Some ps)) = Inl TypeError"
proof -
  obtain tf where tf: "extract_time_features ps = Inr tf"
    using extract_time_features_valid [OF assms] by blast
  obtain cf where cf: "extract_complexity_features ps = Inr cf"
    using extract_complexity_features_valid [OF assms] by blast
  obtain colf s where colf: "extract_color_features ps = Inr colf"
    and lv: "emotional_expression_level colf = PyStr s"
    using extract_color_features_valid [OF assms] by blast
  obtain consf where consf: "extract_consistency_features ps = Inr consf"
    using extract_consistency_features_valid [OF assms] by blast
  show ?thesis
    by (simp add: extract_psychological_features_def tf cf colf consf ebind_Inr ebind_Inl
        composite_of_str_level [OF lv])
qed

lemma validate_input_cases:
  "validate_input d \<Longrightarrow> \<exists>ps. d = Mapping (Some ps) \<and> validate_phases ps"
  by (cases d rule: validate_input.cases) simp_all

lemma analysis_body_valid:
  assumes "validate_input d"
  shows "analysis_body now d = Inl TypeError"
proof -
  obtain ps where d: "d = Mapping (Some ps)" and v: "validate_phases ps"
    using validate_input_cases [OF assms] by blast
  show ?thesis using assms
    by (simp add: analysis_body_def d extract_psychological_features_fails [OF v] ebind_Inl)
qed

lemma analyze_drawing_patterns_eq:
  "analyze_drawing_patterns now d =
     Error_result (if validate_input d then Analysis_failed TypeError else Invalid_input_data_format)"
  by (simp add: analyze_drawing_patterns_def analysis_body_valid) (simp add: analysis_body_def)

lemma example_valid: "validate_input example_data"
  by (simp add: example_data_def example_phase_def has_required_fields_def)

lemma generate_psychological_profile_fails:
  "generate_psychological_profile fs = Inl (AttributeError ''assess_emotional_expression_style'')"
  by (simp add: generate_psychological_profile_def Let_def undefined_method_fails)

lemma generate_statistical_summary_fails: "\<exists>e. generate_statistical_summary d = Inl e"
  by (cases d rule: get_phases.cases)
    (auto simp add: generate_statistical_summary_def ebind_def undefined_method_def split: sum.splits)


lemma sum_list_nonneg_int: "(\<forall>x \<in> set xs. (0::int) \<le> x) \<Longrightarrow> 0 \<le> sum_list xs"
  by (induction xs) simp_all

lemma sum_list_all_equal:
  fixes v :: real
  assumes "\<forall>x \<in> set xs. x = v"
  shows "sum_list xs = real (length xs) * v"
  using assms by (induction xs) (simp_all add: algebra_simps)

lemma coefficient_of_variation_constant:
  assumes "\<forall>x \<in> set xs. x = v"
  shows "coefficient_of_variation xs = Fin 0"
proof (cases "xs = []")
  case True
  then show ?thesis by (simp add: coefficient_of_variation_def np_mean_def)
next
  case False
  then have n: "real (length xs) \<noteq> 0" by simp
  have m: "sum_list xs / real (length xs) = v"
    using n by (simp add: sum_list_all_equal [OF assms])
  have dev: "map (\<lambda>x. (x - v)\<^sup>2) xs = map (\<lambda>x. 0) xs"
    using assms by (intro map_cong) auto
  have "sum_list (map (\<lambda>x. (x - v)\<^sup>2) xs) = 0"
    unfolding dev by simp
  then have "np_std xs = Fin 0"
    using False by (simp add: np_std_def np_var_def Let_def m)
  then show ?thesis
    using False by (simp add: coefficient_of_variation_def np_mean_def m)
qed

lemma length_counter_values: "length (counter_values xs) = card (set xs)"
proof -
  have "distinct (rev (remdups (rev xs)))" by simp
  then have "card (set (rev (remdups (rev xs)))) = length (rev (remdups (rev xs)))"
    by (rule distinct_card)
  then show ?thesis by (simp add: counter_values_def)
qed

lemma sum_list_counter_values:
  fixes f :: "nat \<Rightarrow> real"
  shows "sum_list (map f (counter_values xs)) = (\<Sum>c \<in> set xs. f (count_list xs c))"
proof -
  have d: "distinct (rev (remdups (rev xs)))" by simp
  have "sum_list (map f (counter_values xs))
          = sum_list (map (\<lambda>c. f (count_list xs c)) (rev (remdups (rev xs))))"
    by (simp add: counter_values_def comp_def)
  also have "\<dots> = (\<Sum>c \<in> set (rev (remdups (rev xs))). f (count_list xs c))"
    using d by (rule sum_list_distinct_conv_sum_set)
  finally show ?thesis by simp
qed

lemma card_set_pos: "xs \<noteq> [] \<Longrightarrow> 0 < card (set xs)"
  by (simp add: card_gt_0_iff)

lemma calculate_color_diversity_eq:
  "calculate_color_diversity xs =
     Inr (if length xs \<le> 1 \<or> card (set xs) = 1 then 0 else normalized_entropy xs)"
proof (cases "length xs \<le> 1")
  case True
  then show ?thesis by (simp add: color_diversity_total)
next
  case False
  then have ne: "xs \<noteq> []" by (cases xs) simp_all
  have pos: "0 < card (set xs)" using ne by (rule card_set_pos)
  have ent: "- sum_list (map (\<lambda>c. (real c / real (length xs)) * log 2 (real c / real (length xs)))
                              (counter_values xs)) = shannon_entropy xs"
    by (simp add: sum_list_counter_values shannon_entropy_def color_frequency_def)
  show ?thesis
  proof (cases "card (set xs) = 1")
    case True
    then show ?thesis using False
      by (simp add: color_diversity_total length_counter_values)
  next
    case c: False
    with pos have "1 < real (card (set xs))" by simp
    then have "0 < log 2 (real (card (set xs)))" by simp
    then show ?thesis using False c
      unfolding color_diversity_total length_counter_values ent normalized_entropy_def
      by simp
  qed
qed

lemma calculate_color_diversity_two_colors: "calculate_color_diversity [''red'', ''blue''] = Inr 1"
  using calculate_color_diversity_eq [of "[''red'', ''blue'']"]
  by (simp add: normalized_entropy_def shannon_entropy_def color_frequency_def log_divide)

lemma np_var_nonneg:
  assumes "xs \<noteq> []"
  shows "\<exists>v. np_var xs = Fin v \<and> 0 \<le> v"
proof -
  have "0 \<le> sum_list (map (\<lambda>x. (x - sum_list xs / real (length xs))\<^sup>2) xs)"
    by (rule sum_list_nonneg) auto
  then have "0 \<le> sum_list (map (\<lambda>x. (x - sum_list xs / real (length xs))\<^sup>2) xs) / real (length xs)"
    by (rule divide_nonneg_nonneg) simp
  then show ?thesis using assms by (simp add: np_var_def Let_def)
qed

lemma coefficient_of_variation_nonneg: "\<exists>c. coefficient_of_variation xs = Fin c \<and> 0 \<le> c"
proof (cases "nf_gt (np_mean xs) 0")
  case False
  then show ?thesis by (simp add: coefficient_of_variation_def)
next
  case True
  then have ne: "xs \<noteq> []" by (auto simp add: np_mean_def split: if_splits)
  with True have m: "0 < sum_list xs / real (length xs)" by (simp add: np_mean_def)
  obtain v where v: "np_var xs = Fin v" and v0: "0 \<le> v"
    using np_var_nonneg [OF ne] by blast
  from m have s0: "sum_list xs \<noteq> 0" by auto
  have "coefficient_of_variation xs = Fin (sqrt v / (sum_list xs / real (length xs)))"
    using True ne m s0 by (simp add: coefficient_of_variation_def np_std_def v np_mean_def)
  moreover have "0 \<le> sqrt v / (sum_list xs / real (length xs))"
    using v0 m by (intro divide_nonneg_pos) simp_all
  ultimately show ?thesis by blast
qed

lemma overall_consistency_at_most_one:
  "\<exists>x. calculate_overall_consistency tms strokes colors = Fin x \<and> x \<le> 1"
proof -
  obtain a where a: "coefficient_of_variation tms = Fin a" and a0: "0 \<le> a"
    using coefficient_of_variation_nonneg by blast
  obtain b where b: "coefficient_of_variation strokes = Fin b" and b0: "0 \<le> b"
    using coefficient_of_variation_nonneg by blast
  obtain c where c: "coefficient_of_variation colors = Fin c" and c0: "0 \<le> c"
    using coefficient_of_variation_nonneg by blast
  have "calculate_overall_consistency tms strokes colors = Fin ((1 - a + (1 - b) + (1 - c)) / 3)"
    by (simp add: calculate_overall_consistency_def Let_def a b c)
  moreover have "(1 - a + (1 - b) + (1 - c)) / 3 \<le> 1"
    using a0 b0 c0 by simp
  ultimately show ?thesis by blast
qed

lemma cv_skewed: "coefficient_of_variation [0, 0, 0, 0, 5] = Fin 2"
  by (simp add: coefficient_of_variation_def np_mean_def np_std_def np_var_def Let_def
      power2_eq_square)

lemma behavioral_consistency_may_be_negative:
  "validate_phases skewed_phases \<and>
   (\<exists>consf. extract_consistency_features skewed_phases = Inr consf \<and>
      overall_consistency consf = Fin (- 1))"
  by (simp add: skewed_phases_def skewed_phase_def has_required_fields_def
      extract_consistency_features_def stroke_counts_def color_counts_of_def ebind_Inr Let_def
      calculate_overall_consistency_def cv_skewed)

lemma complexity_score_of_no_phases: "calculate_complexity_score [] [] = NaN"
  by (simp add: calculate_complexity_score_def np_mean_def)

section \<open>The validator (C1)\<close>

text \<open>
  C1, as stated, fails: \<^verbatim>\<open>validate_input\<close> has no test for an empty sequence.  Its loop
  over \<^verbatim>\<open>data['phases']\<close> does not run for \<^verbatim>\<open>{"phases": []}\<close> and the function returns
  \<^verbatim>\<open>True\<close>; \<^verbatim>\<open>analyze_drawing_patterns\<close> then goes on to the extractors and answers an
  analysis-failed error, not the invalid-input error.
\<close>

theorem validate_input_accepts_empty_phases:
  "validate_input (Mapping (Some [])) \<and>
   analyze_drawing_patterns [] (Mapping (Some [])) = Error_result (Analysis_failed TypeError) \<and>
   analyze_drawing_patterns [] (Mapping (Some [])) \<noteq> Error_result Invalid_input_data_format"
  by (simp add: analyze_drawing_patterns_eq)

text \<open>
  C1, amended: \<^verbatim>\<open>validate_input\<close> returns valid exactly when the payload is a mapping
  with a \<^verbatim>\<open>phases\<close> key and every element of that sequence, of which there may be none,
  has the four fields \<^verbatim>\<open>phase\<close>, \<^verbatim>\<open>timeSpent\<close>, \<^verbatim>\<open>strokeCount\<close>, \<^verbatim>\<open>colorsUsed\<close>.
  Whenever it returns invalid, the \<^verbatim>\<open>try\<close> body of \<^verbatim>\<open>analyze_drawing_patterns\<close> returns
  the invalid-input error at once, before any extractor is called, and that is the
  function's result.
\<close>

theorem validate_input_presence_check:
  "(validate_input d \<longleftrightarrow> (\<exists>ps. d = Mapping (Some ps) \<and> (\<forall>p \<in> set ps. has_required_fields p))) \<and>
   (\<not> validate_input d \<longrightarrow>
      analysis_body now d = Inr (Error_result Invalid_input_data_format) \<and>
      analyze_drawing_patterns now d = Error_result Invalid_input_data_format)"
proof -
  have "validate_input d \<longleftrightarrow> (\<exists>ps. d = Mapping (Some ps) \<and> (\<forall>p \<in> set ps. has_required_fields p))"
    by (cases d rule: validate_input.cases) (simp_all add: validate_phases_iff)
  moreover have "\<not> validate_input d \<Longrightarrow> analysis_body now d = Inr (Error_result Invalid_input_data_format)"
    by (simp add: analysis_body_def)
  moreover have "\<not> validate_input d \<Longrightarrow> analyze_drawing_patterns now d = Error_result Invalid_input_data_format"
    by (simp add: analyze_drawing_patterns_def analysis_body_def)
  ultimately show ?thesis by blast
qed

theorem validate_input_presence_check_witness:
  "\<not> validate_input (Mapping (Some [example_phase 1, phase_without_colors])) \<and>
   analyze_drawing_patterns [] (Mapping (Some [example_phase 1, phase_without_colors]))
     = Error_result Invalid_input_data_format \<and>
   validate_input (Mapping (Some [example_phase 1]))"
  using validate_input_presence_check [of "Mapping (Some [example_phase 1, phase_without_colors])" "[]"]
    validate_input_presence_check [of "Mapping (Some [example_phase 1])" "[]"]
  by (simp add: example_phase_def phase_without_colors_def has_required_fields_def)

section \<open>The creative-expression score (C2)\<close>

text \<open>
  C2 does not hold of the code.  \<^verbatim>\<open>calculate_composite_scores\<close> multiplies the
  emotional-expression level by \<^verbatim>\<open>0.5\<close>, and the level is one of the strings
  \<^verbatim>\<open>'High'\<close>, \<^verbatim>\<open>'Moderate'\<close>, \<^verbatim>\<open>'Low'\<close>: no mapping to a number exists, the product
  raises \<^verbatim>\<open>TypeError\<close>, and no composite score is returned.  On the spec's example
  input the feature extraction ends in that exception (lemma
  \<open>extract_psychological_features_fails\<close> shows the same for every validated input).
\<close>

theorem creative_expression_raises_TypeError:
  "extract_psychological_features example_data = Inl TypeError"
  using example_valid extract_psychological_features_fails
  by (simp add: example_data_def)

section \<open>The report (C3)\<close>

text \<open>
  C3 does not hold of the code.  On the spec's example input, which
  \<^verbatim>\<open>validate_input\<close> accepts, \<^verbatim>\<open>analyze_drawing_patterns\<close> returns an error result:
  the exception of C2 reaches its \<^verbatim>\<open>except\<close> branch.  Lemma
  \<open>analyze_drawing_patterns_eq\<close> shows that no input at all yields a report, and lemmas
  \<open>generate_psychological_profile_fails\<close> and \<open>generate_statistical_summary_fails\<close>
  that the calls of undefined methods would end the report even if the scores were there.
\<close>

theorem analyze_drawing_patterns_fails_on_valid_input:
  "validate_input example_data \<and>
   analyze_drawing_patterns now example_data = Error_result (Analysis_failed TypeError)"
  using example_valid by (simp add: analyze_drawing_patterns_eq)

section \<open>The classifier (C5, C6)\<close>

text \<open>
  C5: the rules of \<^verbatim>\<open>determine_personality_cluster\<close> are tried in the order written and
  the first that matches decides.  Scores that satisfy both the Analytical rule and the
  Creative rule get cluster 0, which the table names Analytical.
\<close>

theorem first_matching_rule_wins:
  assumes "nf_gt (attention_to_detail scores) 0.7" and "nf_gt (behavioral_consistency scores) 0.6"
    and "nf_gt (creative_expression scores) 0.6" and "nf_gt (psychological_investment scores) 0.5"
  shows "determine_personality_cluster scores = 0 \<and>
         map_of personality_clusters (determine_personality_cluster scores)
           = Some (''Analytical'', ''Detail-oriented, systematic, consistent'')"
  using assms by (simp add: determine_personality_cluster_def personality_clusters_def)

theorem first_matching_rule_wins_witness:
  "nf_gt (attention_to_detail \<lparr>psychological_investment = Fin 0.9, creative_expression = Fin 0.8,
      behavioral_consistency = Fin 0.7, attention_to_detail = Fin 0.75\<rparr>) 0.7 \<and>
   nf_gt (creative_expression \<lparr>psychological_investment = Fin 0.9, creative_expression = Fin 0.8,
      behavioral_consistency = Fin 0.7, attention_to_detail = Fin 0.75\<rparr>) 0.6 \<and>
   determine_personality_cluster
     \<lparr>psychological_investment = Fin 0.9, creative_expression = Fin 0.8,
      behavioral_consistency = Fin 0.7, attention_to_detail = Fin 0.75\<rparr> = 0 \<and>
   map_of personality_clusters (determine_personality_cluster
     \<lparr>psychological_investment = Fin 0.9, creative_expression = Fin 0.8,
      behavioral_consistency = Fin 0.7, attention_to_detail = Fin 0.75\<rparr>)
     = Some (''Analytical'', ''Detail-oriented, systematic, consistent'')"
  using first_matching_rule_wins [of "\<lparr>psychological_investment = Fin 0.9, creative_expression = Fin 0.8,
      behavioral_consistency = Fin 0.7, attention_to_detail = Fin 0.75\<rparr>"]
  by auto

text \<open>
  C6 does not hold of the code.  \<^verbatim>\<open>perform_personality_clustering\<close> calls
  \<^verbatim>\<open>self.calculate_cluster_confidence\<close>, which the class does not define; the
  \<^verbatim>\<open>AttributeError\<close> is caught by the function's own \<^verbatim>\<open>except\<close> branch, and the
  result, for every argument, is the fallback with type \<^verbatim>\<open>'Unknown'\<close> and no confidence
  score.  (The cluster number itself is always one of the four of the table: lemma
  \<open>map_of_personality_clusters\<close>.)
\<close>

theorem perform_personality_clustering_unknown:
  "perform_personality_clustering fs =
     \<lparr>cluster_id = 0, personality_type = ''Unknown'',
      description = ''Analysis incomplete'', confidence_score = None\<rparr>"
  by (simp add: perform_personality_clustering_def clustering_body_fails)

section \<open>Determinism (C7)\<close>


section \<open>Guarded divisions (C8)\<close>

text \<open>
  C8: on a phase sequence whose records carry their fields, with stroke counts and times
  that are not negative (the data model's range), neither function raises, the
  time-efficiency score is the total of the minutes divided by the total stroke count, and
  0 when that count is 0, and the artistic intensity is the total of
  \<^verbatim>\<open>strokeCount + len(colorsUsed)\<close> divided by the total time in minutes, and 0 when that
  time is 0.  (The guards of the source test for a positive divisor, so a negative total
  gives 0 as well: lemmas \<open>time_efficiency_valid\<close> and \<open>artistic_intensity_valid\<close>.)
\<close>

theorem divisions_are_guarded:
  assumes "validate_phases ps"
    and "\<forall>p \<in> set ps. 0 \<le> the (strokeCount p)"
    and "\<forall>p \<in> set ps. 0 \<le> the (timeSpent p)"
  shows "calculate_time_efficiency tms ps =
           Inr (if total_stroke_count ps = 0 then 0
                else sum_list tms / real_of_int (total_stroke_count ps)) \<and>
         calculate_artistic_intensity ps =
           Inr (if total_minutes ps = 0 then 0
                else real_of_int (total_activity ps) / total_minutes ps)"
proof -
  have s: "0 \<le> total_stroke_count ps"
    unfolding total_stroke_count_def using assms(2) by (intro sum_list_nonneg_int) auto
  have t: "0 \<le> sum_list (map (\<lambda>p. the (timeSpent p)) ps)"
    using assms(3) by (intro sum_list_nonneg_int) auto
  have "calculate_time_efficiency tms ps =
           Inr (if total_stroke_count ps = 0 then 0
                else sum_list tms / real_of_int (total_stroke_count ps))"
    using s by (auto simp add: time_efficiency_valid [OF assms(1)] total_stroke_count_def)
  moreover have "calculate_artistic_intensity ps =
           Inr (if total_minutes ps = 0 then 0
                else real_of_int (total_activity ps) / total_minutes ps)"
    using t by (auto simp add: artistic_intensity_valid [OF assms(1)] total_minutes_def
        total_activity_def)
  ultimately show ?thesis by simp
qed

theorem divisions_are_guarded_witness:
  "validate_phases [example_phase 1, example_phase 2, example_phase 3] \<and>
   calculate_time_efficiency [5, 5, 5] [example_phase 1, example_phase 2, example_phase 3]
     = Inr (1 / 10) \<and>
   calculate_artistic_intensity [example_phase 1, example_phase 2, example_phase 3]
     = Inr (51 / 5) \<and>
   calculate_time_efficiency [5] [(example_phase 1)\<lparr>strokeCount := Some 0\<rparr>] = Inr 0 \<and>
   calculate_artistic_intensity [(example_phase 1)\<lparr>timeSpent := Some 0\<rparr>] = Inr 0"
  using divisions_are_guarded [of "[example_phase 1, example_phase 2, example_phase 3]" "[5, 5, 5]"]
    divisions_are_guarded [of "[(example_phase 1)\<lparr>strokeCount := Some 0\<rparr>]" "[5]"]
    divisions_are_guarded [of "[(example_phase 1)\<lparr>timeSpent := Some 0\<rparr>]" "[5]"]
  by (simp add: example_phase_def has_required_fields_def total_stroke_count_def
      total_minutes_def total_activity_def)

section \<open>Equal times (C9)\<close>

text \<open>
  C9: when all \<^verbatim>\<open>timeSpent\<close> values of a phase sequence are equal, the extracted
  \<^verbatim>\<open>time_consistency\<close> is 1.  This covers the empty sequence and times that are 0 or
  negative, where the mean is not positive and the coefficient of variation counts as 0.
\<close>

theorem equal_times_give_time_consistency_one:
  assumes "validate_phases ps"
    and "\<forall>p \<in> set ps. \<forall>q \<in> set ps. timeSpent p = timeSpent q"
  shows "\<exists>cf. extract_consistency_features ps = Inr cf \<and> time_consistency cf = Fin 1"
proof -
  have "\<forall>x \<in> set (map real_of_int (map (\<lambda>p. the (timeSpent p)) ps)).
          x = real_of_int (the (timeSpent (hd ps)))"
  proof
    fix x assume "x \<in> set (map real_of_int (map (\<lambda>p. the (timeSpent p)) ps))"
    then obtain p where p: "p \<in> set ps" and x: "x = real_of_int (the (timeSpent p))"
      by auto
    from p have "hd ps \<in> set ps" by (cases ps) auto
    with p assms(2) have "timeSpent p = timeSpent (hd ps)" by blast
    with x show "x = real_of_int (the (timeSpent (hd ps)))" by simp
  qed
  then have cv: "coefficient_of_variation (map real_of_int (map (\<lambda>p. the (timeSpent p)) ps)) = Fin 0"
    by (rule coefficient_of_variation_constant)
  show ?thesis
    unfolding extract_consistency_features_def time_spent_valid [OF assms(1)]
      stroke_counts_valid [OF assms(1)] color_counts_valid [OF assms(1)] ebind_Inr Let_def cv
    by simp
qed

theorem equal_times_give_time_consistency_one_witness:
  "validate_phases [example_phase 1, example_phase 2, example_phase 3] \<and>
   (\<exists>cf. extract_consistency_features [example_phase 1, example_phase 2, example_phase 3] = Inr cf
      \<and> time_consistency cf = Fin 1)"
  using equal_times_give_time_consistency_one [of "[example_phase 1, example_phase 2, example_phase 3]"]
  by (simp add: example_phase_def has_required_fields_def)

section \<open>Colour diversity (C10)\<close>

text \<open>
  C10: \<^verbatim>\<open>calculate_color_diversity\<close> returns the Shannon entropy of the colour
  frequencies divided by \<open>log\<^sub>2\<close> of the number of distinct colours, and 0 when there is
  at most one colour usage or exactly one distinct colour; it never raises.  The
  \<^verbatim>\<open>color_diversity_score\<close> of the colour features is that value for the colours of all
  phases together, so it is 0 whenever at most one distinct colour is used.
\<close>

theorem color_diversity_is_normalized_entropy:
  "calculate_color_diversity xs =
     Inr (if length xs \<le> 1 \<or> card (set xs) = 1 then 0 else normalized_entropy xs) \<and>
   (validate_phases ps \<longrightarrow>
     (\<exists>colf. extract_color_features ps = Inr colf \<and>
        color_diversity_score colf =
          (if length (all_colors_of ps) \<le> 1 \<or> card (set (all_colors_of ps)) = 1 then 0
           else normalized_entropy (all_colors_of ps)) \<and>
        (card (set (all_colors_of ps)) \<le> 1 \<longrightarrow> color_diversity_score colf = 0)))"
proof -
  have "\<exists>colf. extract_color_features ps = Inr colf \<and>
        color_diversity_score colf =
          (if length (all_colors_of ps) \<le> 1 \<or> card (set (all_colors_of ps)) = 1 then 0
           else normalized_entropy (all_colors_of ps)) \<and>
        (card (set (all_colors_of ps)) \<le> 1 \<longrightarrow> color_diversity_score colf = 0)"
    if v: "validate_phases ps"
  proof -
    obtain c where c: "calculate_color_consistency ps = Inr c"
      using color_consistency_valid [OF v] by blast
    have zero: "card (set (all_colors_of ps)) = 0 \<Longrightarrow> length (all_colors_of ps) \<le> 1"
      by simp
    have score: "\<exists>colf. extract_color_features ps = Inr colf \<and>
        color_diversity_score colf =
          (if length (all_colors_of ps) \<le> 1 \<or> card (set (all_colors_of ps)) = 1 then 0
           else normalized_entropy (all_colors_of ps))"
      unfolding extract_color_features_def colors_used_valid [OF v] ebind_Inr Let_def
        calculate_color_diversity_eq c all_colors_of_def
      by simp
    then obtain colf where colf: "extract_color_features ps = Inr colf"
      and eq: "color_diversity_score colf =
          (if length (all_colors_of ps) \<le> 1 \<or> card (set (all_colors_of ps)) = 1 then 0
           else normalized_entropy (all_colors_of ps))"
      by blast
    have "card (set (all_colors_of ps)) \<le> 1 \<Longrightarrow> color_diversity_score colf = 0"
    proof -
      assume "card (set (all_colors_of ps)) \<le> 1"
      then have "card (set (all_colors_of ps)) = 0 \<or> card (set (all_colors_of ps)) = 1"
        by linarith
      then show ?thesis using eq zero by auto
    qed
    with colf eq show ?thesis by blast
  qed
  then show ?thesis using calculate_color_diversity_eq by blast
qed

theorem color_diversity_is_normalized_entropy_witness:
  "calculate_color_diversity [''red'', ''red'', ''red''] = Inr 0 \<and>
   validate_phases [example_phase 1, example_phase 2, example_phase 3] \<and>
   (\<exists>colf. extract_color_features [example_phase 1, example_phase 2, example_phase 3] = Inr colf \<and>
      color_diversity_score colf = 0)"
  using color_diversity_is_normalized_entropy
    [of "[''red'', ''red'', ''red'']" "[example_phase 1, example_phase 2, example_phase 3]"]
  by (simp add: example_phase_def has_required_fields_def all_colors_of_def)

section \<open>Upper bound of the composite scores (C4)\<close>

text \<open>
  C4 does not hold of the code: there are no composite scores to bound.  On the spec's
  example input all four extractors return their feature groups, and
  \<^verbatim>\<open>calculate_composite_scores\<close>, called on exactly those, raises \<^verbatim>\<open>TypeError\<close> at its
  second entry, the defect of C2; the entries \<^verbatim>\<open>behavioral_consistency\<close> and
  \<^verbatim>\<open>attention_to_detail\<close> are never evaluated.  The same holds for every validated input
  (lemmas \<open>extract_color_features_valid\<close> and \<open>composite_of_str_level\<close>).

  What the parts would give: every coefficient of variation is 0 or a quotient of a
  standard deviation by a positive mean (lemma \<open>coefficient_of_variation_nonneg\<close>), so
  the overall consistency, as far as the source and the spec determine it, is at most 1
  (lemma \<open>overall_consistency_at_most_one\<close>) and can be negative (lemma
  \<open>behavioral_consistency_may_be_negative\<close>); and for the empty phase sequence, which
  \<^verbatim>\<open>validate_input\<close> accepts, the complexity score is \<^verbatim>\<open>nan\<close> (lemma
  \<open>complexity_score_of_no_phases\<close>).
\<close>

theorem composite_scores_not_produced:
  "\<exists>tf cf colf consf.
     extract_time_features [example_phase 1, example_phase 2, example_phase 3] = Inr tf \<and>
     extract_complexity_features [example_phase 1, example_phase 2, example_phase 3] = Inr cf \<and>
     extract_color_features [example_phase 1, example_phase 2, example_phase 3] = Inr colf \<and>
     extract_consistency_features [example_phase 1, example_phase 2, example_phase 3] = Inr consf \<and>
     calculate_composite_scores tf cf colf consf = Inl TypeError"
proof -
  have v: "validate_phases [example_phase 1, example_phase 2, example_phase 3]"
    by (simp add: example_phase_def has_required_fields_def)
  obtain tf where tf: "extract_time_features [example_phase 1, example_phase 2, example_phase 3] = Inr tf"
    using extract_time_features_valid [OF v] by blast
  obtain cf where cf: "extract_complexity_features [example_phase 1, example_phase 2, example_phase 3] = Inr cf"
    using extract_complexity_features_valid [OF v] by blast
  obtain colf s where colf: "extract_color_features [example_phase 1, example_phase 2, example_phase 3] = Inr colf"
    and lv: "emotional_expression_level colf = PyStr s"
    using extract_color_features_valid [OF v] by blast
  obtain consf where consf: "extract_consistency_features [example_phase 1, example_phase 2, example_phase 3] = Inr consf"
    using extract_consistency_features_valid [OF v] by blast
  from tf cf colf consf composite_of_str_level [OF lv, of tf cf consf] show ?thesis by blast
qed

end
